theory Spec2Isabelle
  imports Complex_Main
begin

section \<open>Data model\<close>

text \<open>
  The stored rows of the catalogue backend, as the views of \<^verbatim>\<open>api/views.py\<close> read and
  write them. A table is the list of its rows in primary-key order of insertion; a
  row carries its primary key.
\<close>

text \<open>
  \<^verbatim>\<open>reviews.models.User\<close> (an \<^verbatim>\<open>AbstractUser\<close> with \<^verbatim>\<open>email\<close>, \<^verbatim>\<open>bio\<close> and \<^verbatim>\<open>role\<close>).
  The views read and assign \<^verbatim>\<open>user.confirmation_code\<close>; the declaration of that column
  is not in \<^verbatim>\<open>models.py\<close>, so it is taken from its use in the views: a code, or
  \<open>None\<close> while none has been stored.
\<close>

record user =
  uid :: nat
  username :: string
  email :: string
  first_name :: string
  last_name :: string
  bio :: string
  role :: string
  confirmation_code :: "string option"

text \<open>\<^verbatim>\<open>reviews.models.Title\<close>; the many-to-many genres and the category are keys.\<close>

record title =
  tid :: nat
  name :: string
  year :: int
  description :: "string option"
  genre :: "nat list"
  category :: "nat option"

text \<open>
  Modelled from the spec: the \<^verbatim>\<open>Review\<close> model, which \<^verbatim>\<open>models.py\<close> leaves as an empty
  class. Its columns are those of the spec's data model (title, author, text, integer
  score); the creation time stamp is left out.
\<close>

record review =
  rid :: nat
  title_id :: nat
  author_id :: nat
  review_text :: string
  score :: int

text \<open>
  The database, and the mail that \<^verbatim>\<open>send_confirmation_email\<close> has handed to the mail
  collaborator, as (address, code) pairs.
\<close>

record yamdb =
  users :: "user list"
  titles :: "title list"
  reviews :: "review list"
  outbox :: "(string \<times> string) list"

text \<open>\<^verbatim>\<open>request.data\<close> and \<^verbatim>\<open>serializer.validated_data\<close>: dictionaries from field names.\<close>

type_synonym data = "string \<rightharpoonup> string"

section \<open>Responses and exceptions\<close>

text \<open>
  The \<^verbatim>\<open>detail\<close> messages of \<^verbatim>\<open>SignupView\<close> are Cyrillic sentences; each is named by a
  constructor.
\<close>

datatype detail = InvalidMe | EmailMismatch | AlreadyRegistered

datatype body =
  Empty
  | Token string
  | Detail detail
  | Fields "(string \<times> string) list"
  | ReviewFields string int
  | Errors

datatype response = Response (content: body) (status: nat)

datatype error =
  ValidationError
  | Http404
  | SuspiciousOperation
  | MultipleObjectsReturned
  | KeyError
  | IntegrityError
  | NotAuthenticated
  | PermissionDenied
  | MethodNotAllowed

text \<open>
  What the framework answers when a view raises: REST framework's exception handler
  for its own exceptions and \<^verbatim>\<open>Http404\<close>, Django's handler for
  \<^verbatim>\<open>SuspiciousOperation\<close> (400) and for anything else (500).
\<close>

fun exception_response :: "error \<Rightarrow> response" where
  "exception_response ValidationError = Response Errors 400"
| "exception_response Http404 = Response Empty 404"
| "exception_response SuspiciousOperation = Response Empty 400"
| "exception_response MultipleObjectsReturned = Response Empty 500"
| "exception_response KeyError = Response Empty 500"
| "exception_response IntegrityError = Response Empty 500"
| "exception_response NotAuthenticated = Response Empty 401"
| "exception_response PermissionDenied = Response Empty 403"
| "exception_response MethodNotAllowed = Response Empty 405"

text \<open>A view that only reads: its response, or the response to what it raised.\<close>

definition respond :: "error + response \<Rightarrow> response" where
  "respond r = (case r of Inl e \<Rightarrow> exception_response e | Inr resp \<Rightarrow> resp)"

text \<open>
  A view that writes returns what it answered or raised, and the database as it left
  it; the client sees the response and the next request sees the database.
\<close>

definition finalize :: "(error + response) \<times> yamdb \<Rightarrow> response \<times> yamdb" where
  "finalize out = (respond (fst out), snd out)"

section \<open>Queries\<close>

text \<open>
  \<^verbatim>\<open>get_object_or_404(Model, **lookup)\<close> over the rows the lookup selects:
  \<^verbatim>\<open>QuerySet.get\<close> raises when it finds none (turned into \<^verbatim>\<open>Http404\<close>) or several.
\<close>

definition get_object_or_404 :: "'a list \<Rightarrow> error + 'a" where
  "get_object_or_404 rows =
     (case rows of
        [] \<Rightarrow> Inl Http404
      | [x] \<Rightarrow> Inr x
      | _ # _ # _ \<Rightarrow> Inl MultipleObjectsReturned)"

text \<open>\<^verbatim>\<open>QuerySet.first()\<close>.\<close>

definition first :: "'a list \<Rightarrow> 'a option" where
  "first rows = (case rows of [] \<Rightarrow> None | x # _ \<Rightarrow> Some x)"

text \<open>\<^verbatim>\<open>User.objects.filter(username=...)\<close>; a missing value (\<open>None\<close>) selects no row.\<close>

definition filter_username :: "yamdb \<Rightarrow> string option \<Rightarrow> user list" where
  "filter_username db n = filter (\<lambda>u. Some (username u) = n) (users db)"

section \<open>Token exchange\<close>

text \<open>
  \<^verbatim>\<open>TokenObtainWithConfirmationView.create\<close>. The serializer class is not among the
  sources: \<open>ser\<close> is its validation, \<open>None\<close> when \<^verbatim>\<open>is_valid\<close> fails (which raises, as
  \<^verbatim>\<open>raise_exception=True\<close> asks) and the validated data otherwise. \<open>for_user\<close> is the
  token-signing collaborator \<^verbatim>\<open>AccessToken.for_user\<close>.
\<close>

definition TokenObtainWithConfirmationView_create ::
  "(data \<Rightarrow> data option) \<Rightarrow> (user \<Rightarrow> string) \<Rightarrow> yamdb \<Rightarrow> data \<Rightarrow> error + response" where
  "TokenObtainWithConfirmationView_create ser for_user db request_data =
     (case ser request_data of
        None \<Rightarrow> Inl ValidationError
      | Some validated_data \<Rightarrow>
          (case validated_data ''username'' of
             None \<Rightarrow> Inl KeyError
           | Some username' \<Rightarrow>
               (case validated_data ''confirmation_code'' of
                  None \<Rightarrow> Inl KeyError
                | Some confirmation_code' \<Rightarrow>
                    if username' = ''me'' then Inr (Response Empty 400)
                    else
                      (case get_object_or_404 (filter_username db (Some username')) of
                         Inl e \<Rightarrow> Inl e
                       | Inr user \<Rightarrow>
                           if Some confirmation_code' = confirmation_code user
                           then Inr (Response (Token (for_user user)) 200)
                           else Inr (Response Empty 400)))))"

text \<open>The endpoint: the view's response, exceptions answered by the framework.\<close>

definition token_endpoint ::
  "(data \<Rightarrow> data option) \<Rightarrow> (user \<Rightarrow> string) \<Rightarrow> yamdb \<Rightarrow> data \<Rightarrow> response" where
  "token_endpoint ser for_user db request_data =
     respond (TokenObtainWithConfirmationView_create ser for_user db request_data)"

text \<open>Whether a response carries a bearer token, and how many of a run of responses do.\<close>

fun carries_token :: "response \<Rightarrow> bool" where
  "carries_token (Response (Token t) s) = True"
| "carries_token (Response b s) = False"

definition tokens_issued :: "response list \<Rightarrow> nat" where
  "tokens_issued rs = length (filter carries_token rs)"

text \<open>
  A wrong-code attempt: a request that validation rejects, or whose submitted code is
  not the stored code of any user of the submitted name.
\<close>

definition wrong_code :: "(data \<Rightarrow> data option) \<Rightarrow> yamdb \<Rightarrow> data \<Rightarrow> bool" where
  "wrong_code ser db d =
     (case ser d of
        None \<Rightarrow> True
      | Some vd \<Rightarrow>
          (case vd ''username'' of
             None \<Rightarrow> True
           | Some n \<Rightarrow>
               (case vd ''confirmation_code'' of
                  None \<Rightarrow> True
                | Some c \<Rightarrow>
                    list_all (\<lambda>u. confirmation_code u \<noteq> Some c) (filter_username db (Some n)))))"

section \<open>Saving users\<close>

text \<open>
  \<^verbatim>\<open>Model.save()\<close> on a user: the row with the instance's primary key is overwritten,
  or the instance is inserted when no row has it. The table's \<^verbatim>\<open>unique=True\<close> columns
  (\<^verbatim>\<open>username\<close> of \<^verbatim>\<open>AbstractUser\<close>, \<^verbatim>\<open>email\<close>) make the database refuse a value
  another row holds.
\<close>

definition unique_violation :: "yamdb \<Rightarrow> user \<Rightarrow> bool" where
  "unique_violation db u =
     list_ex (\<lambda>x. uid x \<noteq> uid u \<and> (username x = username u \<or> email x = email u)) (users db)"

definition user_save :: "yamdb \<Rightarrow> user \<Rightarrow> error + yamdb" where
  "user_save db u =
     (if unique_violation db u then Inl IntegrityError
      else if list_ex (\<lambda>x. uid x = uid u) (users db)
      then Inr (db\<lparr>users := map (\<lambda>x. if uid x = uid u then u else x) (users db)\<rparr>)
      else Inr (db\<lparr>users := users db @ [u]\<rparr>))"

text \<open>The stored row with a primary key.\<close>

definition user_by_pk :: "yamdb \<Rightarrow> nat \<Rightarrow> user option" where
  "user_by_pk db k = find (\<lambda>x. uid x = k) (users db)"

text \<open>The primary key the database gives the next inserted row.\<close>

definition next_pk :: "nat list \<Rightarrow> nat" where
  "next_pk ks = Suc (fold max ks 0)"

section \<open>Signup\<close>

text \<open>
  Modelled from the spec: \<^verbatim>\<open>api.utils.send_confirmation_email\<close>, which is not among the
  sources. It generates a confirmation code, hands it to the mail collaborator for
  the address and returns it. \<open>code\<close> is the code this call generates.
\<close>

definition send_confirmation_email :: "string \<Rightarrow> yamdb \<Rightarrow> string \<Rightarrow> yamdb \<times> string" where
  "send_confirmation_email code db address =
     (db\<lparr>outbox := outbox db @ [(address, code)]\<rparr>, code)"

text \<open>
  Modelled from the spec: \<^verbatim>\<open>SignUpSerializer.save()\<close>, which is not among the sources.
  It creates the user record from the validated username and email; the other
  columns take their defaults (\<^verbatim>\<open>role\<close> is \<^verbatim>\<open>'user'\<close>).
\<close>

definition SignUpSerializer_save :: "yamdb \<Rightarrow> data \<Rightarrow> error + user \<times> yamdb" where
  "SignUpSerializer_save db validated_data =
     (case validated_data ''username'' of
        None \<Rightarrow> Inl KeyError
      | Some n \<Rightarrow>
          (case validated_data ''email'' of
             None \<Rightarrow> Inl KeyError
           | Some e \<Rightarrow>
               (let user = \<lparr>uid = next_pk (map uid (users db)), username = n, email = e,
                            first_name = [], last_name = [], bio = [], role = ''user'',
                            confirmation_code = None\<rparr>
                in case user_save db user of
                     Inl err \<Rightarrow> Inl err
                   | Inr db' \<Rightarrow> Inr (user, db'))))"

text \<open>
  \<^verbatim>\<open>SignupView.post\<close>. \<open>ser\<close> is the validation of \<^verbatim>\<open>SignUpSerializer\<close> (\<open>None\<close> when
  \<^verbatim>\<open>is_valid\<close> is false), \<open>code\<close> the code \<^verbatim>\<open>send_confirmation_email\<close> generates.
\<close>

definition SignupView_post ::
  "(data \<Rightarrow> data option) \<Rightarrow> string \<Rightarrow> yamdb \<Rightarrow> data \<Rightarrow> (error + response) \<times> yamdb" where
  "SignupView_post ser code db request_data =
     (let username' = request_data ''username'';
          email' = request_data ''email''
      in if username' = Some ''me'' then (Inr (Response (Detail InvalidMe) 400), db)
         else
           (case first (filter_username db username') of
              Some existing_user \<Rightarrow>
                if Some (email existing_user) \<noteq> email'
                then (Inr (Response (Detail EmailMismatch) 400), db)
                else (Inr (Response (Detail AlreadyRegistered) 200), db)
            | None \<Rightarrow>
                (case ser request_data of
                   Some validated_data \<Rightarrow>
                     (case SignUpSerializer_save db validated_data of
                        Inl e \<Rightarrow> (Inl e, db)
                      | Inr (user, db1) \<Rightarrow>
                          (case send_confirmation_email code db1 (email user) of
                             (db2, confirmation_code') \<Rightarrow>
                               (case user_save db2 (user\<lparr>confirmation_code := Some confirmation_code'\<rparr>) of
                                  Inl e \<Rightarrow> (Inl e, db2)
                                | Inr db3 \<Rightarrow>
                                    (Inr (Response (Fields [(''username'', username user),
                                                            (''email'', email user)]) 200), db3))))
                 | None \<Rightarrow> (Inr (Response Errors 400), db))))"

definition signup_endpoint ::
  "(data \<Rightarrow> data option) \<Rightarrow> string \<Rightarrow> yamdb \<Rightarrow> data \<Rightarrow> response \<times> yamdb" where
  "signup_endpoint ser code db request_data = finalize (SignupView_post ser code db request_data)"

section \<open>Reviews\<close>

text \<open>\<^verbatim>\<open>ReviewViewSet.get_title\<close>, on the \<^verbatim>\<open>title_id\<close> of the request path.\<close>

definition ReviewViewSet_get_title :: "yamdb \<Rightarrow> nat \<Rightarrow> error + title" where
  "ReviewViewSet_get_title db title' = get_object_or_404 (filter (\<lambda>t. tid t = title') (titles db))"

text \<open>\<^verbatim>\<open>Review.objects.filter(title=title, author=self.request.user)\<close>.\<close>

definition reviews_of :: "yamdb \<Rightarrow> nat \<Rightarrow> user \<Rightarrow> review list" where
  "reviews_of db title' request_user =
     filter (\<lambda>r. title_id r = title' \<and> author_id r = uid request_user) (reviews db)"

text \<open>
  \<^verbatim>\<open>serializer.save(author=..., title=...)\<close> of the review serializer: a new row from the
  validated text and score, the author and the title.
\<close>

definition ReviewSerializer_save :: "yamdb \<Rightarrow> string \<times> int \<Rightarrow> user \<Rightarrow> title \<Rightarrow> yamdb" where
  "ReviewSerializer_save db validated_data request_user t =
     db\<lparr>reviews := reviews db @
        [\<lparr>rid = next_pk (map rid (reviews db)), title_id = tid t, author_id = uid request_user,
          review_text = fst validated_data, score = snd validated_data\<rparr>]\<rparr>"

text \<open>
  \<^verbatim>\<open>ReviewViewSet.perform_create\<close>. \<open>ser\<close> is the validation of \<^verbatim>\<open>ReviewSerializer\<close>, which
  is not among the sources: \<open>None\<close> when \<^verbatim>\<open>is_valid\<close> is false, the validated text and
  score otherwise. Python evaluates \<^verbatim>\<open>self.get_title()\<close> before it calls \<^verbatim>\<open>save\<close>.
\<close>

definition ReviewViewSet_perform_create ::
  "(data \<Rightarrow> (string \<times> int) option) \<Rightarrow> user \<Rightarrow> nat \<Rightarrow> yamdb \<Rightarrow> data \<Rightarrow> error + yamdb" where
  "ReviewViewSet_perform_create ser request_user title' db request_data =
     (if reviews_of db title' request_user \<noteq> [] then Inl SuspiciousOperation
      else
        (case ser request_data of
           Some validated_data \<Rightarrow>
             (case ReviewViewSet_get_title db title' of
                Inl e \<Rightarrow> Inl e
              | Inr t \<Rightarrow> Inr (ReviewSerializer_save db validated_data request_user t))
         | None \<Rightarrow> Inr db))"

text \<open>
  \<^verbatim>\<open>ReviewViewSet.create\<close>, which is \<^verbatim>\<open>CreateModelMixin.create\<close>: validate (raising on
  failure), \<^verbatim>\<open>perform_create\<close>, answer 201 with the serializer's data.
\<close>

definition ReviewViewSet_create ::
  "(data \<Rightarrow> (string \<times> int) option) \<Rightarrow> user \<Rightarrow> nat \<Rightarrow> yamdb \<Rightarrow> data \<Rightarrow> (error + response) \<times> yamdb" where
  "ReviewViewSet_create ser request_user title' db request_data =
     (case ser request_data of
        None \<Rightarrow> (Inl ValidationError, db)
      | Some validated_data \<Rightarrow>
          (case ReviewViewSet_perform_create ser request_user title' db request_data of
             Inl e \<Rightarrow> (Inl e, db)
           | Inr db' \<Rightarrow>
               (Inr (Response (ReviewFields (fst validated_data) (snd validated_data)) 201), db')))"

definition review_create_endpoint ::
  "(data \<Rightarrow> (string \<times> int) option) \<Rightarrow> user \<Rightarrow> nat \<Rightarrow> yamdb \<Rightarrow> data \<Rightarrow> response \<times> yamdb" where
  "review_create_endpoint ser request_user title' db request_data =
     finalize (ReviewViewSet_create ser request_user title' db request_data)"

text \<open>The invariant of the review table: no two rows share title and author.\<close>

definition one_review_per_pair :: "yamdb \<Rightarrow> bool" where
  "one_review_per_pair db = distinct (map (\<lambda>r. (title_id r, author_id r)) (reviews db))"

text \<open>
  A run of review submissions for one title, each by its own user, every request
  against the database the one before left; the statuses answered and the final
  database.
\<close>

fun submit_reviews ::
  "(data \<Rightarrow> (string \<times> int) option) \<Rightarrow> nat \<Rightarrow> yamdb \<Rightarrow> (user \<times> data) list \<Rightarrow> nat list \<times> yamdb" where
  "submit_reviews ser title' db [] = ([], db)"
| "submit_reviews ser title' db ((u, d) # rest) =
     (case review_create_endpoint ser u title' db d of
        (resp, db') \<Rightarrow>
          (case submit_reviews ser title' db' rest of
             (sts, db'') \<Rightarrow> (status resp # sts, db'')))"


section \<open>Titles\<close>

text \<open>
  The database computes an average in double precision. The numbers below are the
  binary64 arithmetic it needs, in the format's normal range: the length of a
  positive integer in bits, a power of two with an integer exponent, and the
  quotient \<open>a / (q * 2 ^ e)\<close> as a fraction of integers.
\<close>

fun bit_length :: "nat \<Rightarrow> nat" where
  "bit_length n = (if n = 0 then 0 else Suc (bit_length (n div 2)))"

declare bit_length.simps [simp del]

definition pow2 :: "int \<Rightarrow> real" where
  "pow2 e = (if 0 \<le> e then 2 ^ nat e else 1 / 2 ^ nat (- e))"

definition scaled :: "int \<Rightarrow> int \<Rightarrow> int \<Rightarrow> int \<times> int" where
  "scaled a q e = (if 0 \<le> e then (a, q * 2 ^ nat e) else (a * 2 ^ nat (- e), q))"

text \<open>The integer nearest to \<open>n / m\<close>, a tie going to the even one.\<close>

definition round_half_even :: "int \<Rightarrow> int \<Rightarrow> int" where
  "round_half_even n m =
     (let k = n div m; r = n mod m
      in if 2 * r < m then k else if m < 2 * r then k + 1 else if even k then k else k + 1)"

text \<open>
  The exponent of the unit in the last place of \<open>a / q\<close> (both positive): the \<open>e\<close> with
  \<open>2 ^ (e + 52) \<le> a / q < 2 ^ (e + 53)\<close>, so that the quotient has 53 significant bits.
\<close>

definition double_exponent :: "int \<Rightarrow> int \<Rightarrow> int" where
  "double_exponent a q =
     (let d = int (bit_length (nat a)) - int (bit_length (nat q))
      in case scaled a q d of (n, m) \<Rightarrow> if m \<le> n then d - 52 else d - 53)"

text \<open>
  Division of an integer by a positive integer in binary64: the quotient rounded to
  53 significant bits, ties to even.
\<close>

definition double_div :: "int \<Rightarrow> int \<Rightarrow> real" where
  "double_div p q =
     (if p = 0 then 0
      else (let e = double_exponent \<bar>p\<bar> q
            in case scaled \<bar>p\<bar> q e of
                 (n, m) \<Rightarrow> real_of_int (sgn p * round_half_even n m) * pow2 e))"

text \<open>
  The aggregate \<^verbatim>\<open>Avg\<close>: SQL's \<^verbatim>\<open>AVG\<close> over the joined rows, \<^verbatim>\<open>NULL\<close> when there are
  none, and otherwise the sum of the scores divided by their number in double
  precision (the sum of integer scores is exact in a double below \<open>2 ^ 53\<close>).
\<close>

definition Avg :: "int list \<Rightarrow> real option" where
  "Avg xs = (if xs = [] then None else Some (double_div (sum_list xs) (int (length xs))))"

text \<open>
  \<^verbatim>\<open>annotate(rating=Avg("reviews__score"))\<close>: every title row, with the aggregate over
  the review rows that point at it.
\<close>

definition annotate_rating :: "yamdb \<Rightarrow> title \<Rightarrow> title \<times> real option" where
  "annotate_rating db t = (t, Avg (map score (filter (\<lambda>r. title_id r = tid t) (reviews db))))"

text \<open>\<^verbatim>\<open>order_by("-year")\<close>.\<close>

definition order_by_year_desc :: "(title \<times> real option) list \<Rightarrow> (title \<times> real option) list" where
  "order_by_year_desc rows = sort_key (\<lambda>row. - year (fst row)) rows"

text \<open>\<^verbatim>\<open>TitleViewSet.get_queryset\<close>.\<close>

definition TitleViewSet_get_queryset :: "yamdb \<Rightarrow> (title \<times> real option) list" where
  "TitleViewSet_get_queryset db = order_by_year_desc (map (annotate_rating db) (titles db))"

text \<open>
  The list action: the queryset, narrowed by the request's filters (\<open>flt\<close>, on the
  columns of the title: the search and filter backends select rows and keep their
  order). The retrieve action: the row of the queryset with the primary key of the
  path.
\<close>

definition TitleViewSet_list :: "(title \<Rightarrow> bool) \<Rightarrow> yamdb \<Rightarrow> (title \<times> real option) list" where
  "TitleViewSet_list flt db = filter (\<lambda>row. flt (fst row)) (TitleViewSet_get_queryset db)"





section \<open>Requests, permissions and dispatch\<close>

datatype http_method = GET | POST | PUT | PATCH | DELETE | HEAD | OPTIONS | TRACE

text \<open>Who sends the request: nobody the authentication recognises, or a stored user.\<close>

datatype principal = Anonymous | Authenticated user

text \<open>REST framework's own permission classes that the views name.\<close>

definition SAFE_METHODS :: "http_method list" where
  "SAFE_METHODS = [GET, HEAD, OPTIONS]"

definition IsAuthenticated :: "http_method \<Rightarrow> principal \<Rightarrow> bool" where
  "IsAuthenticated m who = (case who of Anonymous \<Rightarrow> False | Authenticated u \<Rightarrow> True)"

definition IsAuthenticatedOrReadOnly :: "http_method \<Rightarrow> principal \<Rightarrow> bool" where
  "IsAuthenticatedOrReadOnly m who =
     (m \<in> set SAFE_METHODS \<or> (case who of Anonymous \<Rightarrow> False | Authenticated u \<Rightarrow> True))"

text \<open>
  \<^verbatim>\<open>APIView.permission_denied\<close>: an unauthenticated request is told to authenticate,
  an authenticated one is forbidden.
\<close>

definition permission_denied :: "principal \<Rightarrow> error" where
  "permission_denied who = (case who of Anonymous \<Rightarrow> NotAuthenticated | Authenticated u \<Rightarrow> PermissionDenied)"

text \<open>
  \<^verbatim>\<open>APIView.dispatch\<close>: \<^verbatim>\<open>initial\<close> checks every permission class of the view first;
  then the handler bound to the method runs if the method is among the view's
  \<^verbatim>\<open>http_method_names\<close> and has a handler, and \<^verbatim>\<open>http_method_not_allowed\<close> raises
  otherwise. \<open>actions\<close> is the router's binding of methods to the view's handlers.
\<close>

type_synonym handler = "yamdb \<Rightarrow> (error + response) \<times> yamdb"

definition dispatch ::
  "(http_method \<Rightarrow> principal \<Rightarrow> bool) list \<Rightarrow> http_method list \<Rightarrow> (http_method \<rightharpoonup> handler) \<Rightarrow>
   http_method \<Rightarrow> principal \<Rightarrow> yamdb \<Rightarrow> response \<times> yamdb" where
  "dispatch permission_classes http_method_names actions request_method who db =
     finalize
       (if \<not> list_all (\<lambda>permission. permission request_method who) permission_classes
        then (Inl (permission_denied who), db)
        else if request_method \<in> set http_method_names
        then (case actions request_method of
                Some h \<Rightarrow> h db
              | None \<Rightarrow> (Inl MethodNotAllowed, db))
        else (Inl MethodNotAllowed, db))"

text \<open>\<^verbatim>\<open>View.http_method_names\<close>, which \<^verbatim>\<open>ModelViewSet\<close> inherits.\<close>

definition ModelViewSet_http_method_names :: "http_method list" where
  "ModelViewSet_http_method_names = [GET, POST, PUT, PATCH, DELETE, HEAD, OPTIONS, TRACE]"

text \<open>The \<^verbatim>\<open>http_method_names\<close> of the title, review and comment view sets.\<close>

definition TitleViewSet_http_method_names :: "http_method list" where
  "TitleViewSet_http_method_names = [m \<leftarrow> ModelViewSet_http_method_names. m \<notin> set [PUT]]"

definition ReviewViewSet_http_method_names :: "http_method list" where
  "ReviewViewSet_http_method_names = [m \<leftarrow> ModelViewSet_http_method_names. m \<notin> set [PUT]]"

definition CommentViewSet_http_method_names :: "http_method list" where
  "CommentViewSet_http_method_names = [m \<leftarrow> ModelViewSet_http_method_names. m \<notin> set [PUT]]"

text \<open>\<^verbatim>\<open>UsersViewSet.update\<close>; \<open>super_update\<close> is \<^verbatim>\<open>UpdateModelMixin.update\<close>.\<close>

definition UsersViewSet_update :: "http_method \<Rightarrow> handler \<Rightarrow> handler" where
  "UsersViewSet_update request_method super_update db =
     (if request_method = PUT then (Inr (Response Empty 405), db) else super_update db)"

text \<open>
  The four resources as the router serves them. The permission classes of
  \<^verbatim>\<open>api.permissions\<close> are not among the sources and are parameters, as are the handlers
  the view sets inherit. The router binds \<^verbatim>\<open>put\<close> to \<^verbatim>\<open>update\<close> and \<^verbatim>\<open>patch\<close> to
  \<^verbatim>\<open>partial_update\<close>, which calls \<^verbatim>\<open>update\<close>.
\<close>

definition UsersViewSet_dispatch ::
  "(http_method \<Rightarrow> principal \<Rightarrow> bool) \<Rightarrow> (http_method \<rightharpoonup> handler) \<Rightarrow> handler \<Rightarrow>
   http_method \<Rightarrow> principal \<Rightarrow> yamdb \<Rightarrow> response \<times> yamdb" where
  "UsersViewSet_dispatch IsAdmin actions super_update request_method who db =
     dispatch [IsAdmin] ModelViewSet_http_method_names
       (actions(PUT \<mapsto> UsersViewSet_update request_method super_update,
                PATCH \<mapsto> UsersViewSet_update request_method super_update))
       request_method who db"

definition TitleViewSet_dispatch ::
  "(http_method \<Rightarrow> principal \<Rightarrow> bool) \<Rightarrow> (http_method \<rightharpoonup> handler) \<Rightarrow>
   http_method \<Rightarrow> principal \<Rightarrow> yamdb \<Rightarrow> response \<times> yamdb" where
  "TitleViewSet_dispatch IsAdminOrReadOnly actions request_method who db =
     dispatch [IsAdminOrReadOnly] TitleViewSet_http_method_names actions request_method who db"

definition ReviewViewSet_dispatch ::
  "(http_method \<Rightarrow> principal \<Rightarrow> bool) \<Rightarrow> (http_method \<rightharpoonup> handler) \<Rightarrow>
   http_method \<Rightarrow> principal \<Rightarrow> yamdb \<Rightarrow> response \<times> yamdb" where
  "ReviewViewSet_dispatch IsAuthorModerAdminOrReadOnly actions request_method who db =
     dispatch [IsAuthenticatedOrReadOnly, IsAuthorModerAdminOrReadOnly]
       ReviewViewSet_http_method_names actions request_method who db"

definition CommentViewSet_dispatch ::
  "(http_method \<Rightarrow> principal \<Rightarrow> bool) \<Rightarrow> (http_method \<rightharpoonup> handler) \<Rightarrow>
   http_method \<Rightarrow> principal \<Rightarrow> yamdb \<Rightarrow> response \<times> yamdb" where
  "CommentViewSet_dispatch IsAuthorModerAdminOrReadOnly actions request_method who db =
     dispatch [IsAuthenticatedOrReadOnly, IsAuthorModerAdminOrReadOnly]
       CommentViewSet_http_method_names actions request_method who db"

section \<open>The "me" endpoint\<close>

text \<open>
  \<^verbatim>\<open>ModelSerializer.update\<close>, which \<^verbatim>\<open>serializer.save()\<close> runs on the instance it was
  given: every item of the validated data is assigned to the attribute of its name.
\<close>

definition assigned :: "data \<Rightarrow> string \<Rightarrow> string \<Rightarrow> string" where
  "assigned validated_data attr old = (case validated_data attr of None \<Rightarrow> old | Some v \<Rightarrow> v)"

definition ModelSerializer_update :: "user \<Rightarrow> data \<Rightarrow> user" where
  "ModelSerializer_update instance validated_data =
     instance\<lparr>username := assigned validated_data ''username'' (username instance),
              email := assigned validated_data ''email'' (email instance),
              first_name := assigned validated_data ''first_name'' (first_name instance),
              last_name := assigned validated_data ''last_name'' (last_name instance),
              bio := assigned validated_data ''bio'' (bio instance),
              role := assigned validated_data ''role'' (role instance)\<rparr>"

text \<open>The attribute of a user that a field name of the serializer stands for.\<close>

definition getattr :: "user \<Rightarrow> string \<Rightarrow> string option" where
  "getattr u attr =
     (if attr = ''username'' then Some (username u)
      else if attr = ''email'' then Some (email u)
      else if attr = ''first_name'' then Some (first_name u)
      else if attr = ''last_name'' then Some (last_name u)
      else if attr = ''bio'' then Some (bio u)
      else if attr = ''role'' then Some (role u)
      else None)"

definition UserSerializer_data :: "user \<Rightarrow> body" where
  "UserSerializer_data u =
     Fields [(''username'', username u), (''email'', email u), (''first_name'', first_name u),
             (''last_name'', last_name u), (''bio'', bio u), (''role'', role u)]"

text \<open>
  \<^verbatim>\<open>UsersViewSet.get_update_me\<close>. \<open>ser\<close> is the validation of \<^verbatim>\<open>UserSerializer\<close> (not
  among the sources) for the instance and the request's data with \<^verbatim>\<open>partial=True\<close>:
  \<open>None\<close> when \<^verbatim>\<open>is_valid\<close> is false, the validated data otherwise.
  \<^verbatim>\<open>validated_data.pop("role", None)\<close> removes the key.
\<close>

definition UsersViewSet_get_update_me ::
  "(user \<Rightarrow> data \<Rightarrow> data option) \<Rightarrow> http_method \<Rightarrow> user \<Rightarrow> data \<Rightarrow> handler" where
  "UsersViewSet_get_update_me ser request_method request_user request_data db =
     (case ser request_user request_data of
        Some validated_data \<Rightarrow>
          (let validated_data' =
                 (if request_method = PATCH then validated_data(''role'' := None)
                  else validated_data);
               instance = ModelSerializer_update request_user validated_data'
           in case user_save db instance of
                Inl e \<Rightarrow> (Inl e, db)
              | Inr db' \<Rightarrow> (Inr (Response (UserSerializer_data instance) 200), db'))
      | None \<Rightarrow> (Inr (Response Errors 400), db))"

text \<open>
  The route of the action: methods \<^verbatim>\<open>GET\<close> and \<^verbatim>\<open>PATCH\<close>, permission
  \<^verbatim>\<open>IsAuthenticated\<close>; \<^verbatim>\<open>request.user\<close> is the authenticated user.
\<close>

definition me_endpoint ::
  "(user \<Rightarrow> data \<Rightarrow> data option) \<Rightarrow> http_method \<Rightarrow> principal \<Rightarrow> data \<Rightarrow> yamdb \<Rightarrow> response \<times> yamdb" where
  "me_endpoint ser request_method who request_data db =
     (case who of
        Anonymous \<Rightarrow> dispatch [IsAuthenticated] ModelViewSet_http_method_names Map.empty request_method who db
      | Authenticated request_user \<Rightarrow>
          dispatch [IsAuthenticated] ModelViewSet_http_method_names
            [GET \<mapsto> UsersViewSet_get_update_me ser request_method request_user request_data,
             PATCH \<mapsto> UsersViewSet_get_update_me ser request_method request_user request_data]
            request_method who db)"


section \<open>Example data\<close>

text \<open>The spec's example user, after a signup whose mailed code was \<^verbatim>\<open>1234\<close>.\<close>

definition bob :: user where
  "bob = \<lparr>uid = 1, username = ''bob'', email = ''bob@x.com'', first_name = [], last_name = [],
          bio = [], role = ''user'', confirmation_code = Some ''1234''\<rparr>"

definition empty_db :: yamdb where
  "empty_db = \<lparr>users = [], titles = [], reviews = [], outbox = []\<rparr>"

definition example_db :: yamdb where
  "example_db = \<lparr>users = [bob], titles = [], reviews = [], outbox = []\<rparr>"

text \<open>A second user, a title, and a catalogue that holds them without any review yet.\<close>

definition eve :: user where
  "eve = \<lparr>uid = 2, username = ''eve'', email = ''eve@x.com'', first_name = [], last_name = [],
          bio = [], role = ''user'', confirmation_code = None\<rparr>"

definition film :: title where
  "film = \<lparr>tid = 1, name = ''Film'', year = 1999, description = None, genre = [],
           category = None\<rparr>"

definition catalogue_db :: yamdb where
  "catalogue_db = \<lparr>users = [bob, eve], titles = [film], reviews = [], outbox = []\<rparr>"

text \<open>Two more titles, and a catalogue with reviews: two of the film, one of the book.\<close>

definition book :: title where
  "book = \<lparr>tid = 2, name = ''Book'', year = 2005, description = None, genre = [],
           category = None\<rparr>"

definition song :: title where
  "song = \<lparr>tid = 3, name = ''Song'', year = 1980, description = None, genre = [],
           category = None\<rparr>"

definition rated_db :: yamdb where
  "rated_db =
     \<lparr>users = [bob, eve], titles = [film, book, song],
      reviews = [\<lparr>rid = 1, title_id = 1, author_id = 1, review_text = ''good'', score = 8\<rparr>,
                 \<lparr>rid = 2, title_id = 1, author_id = 2, review_text = ''dull'', score = 5\<rparr>,
                 \<lparr>rid = 3, title_id = 2, author_id = 1, review_text = ''great'', score = 10\<rparr>],
      outbox = []\<rparr>"



text \<open>
  Modelled from the spec: the validation of \<^verbatim>\<open>UserSerializer\<close> used in the examples. A
  model serializer refuses a value longer than its column; \<^verbatim>\<open>models.py\<close> gives \<^verbatim>\<open>bio\<close>
  255 characters and \<^verbatim>\<open>role\<close> 50.
\<close>

definition fits :: "data \<Rightarrow> string \<Rightarrow> nat \<Rightarrow> bool" where
  "fits d attr n = (case d attr of None \<Rightarrow> True | Some v \<Rightarrow> length v \<le> n)"

definition example_user_serializer :: "user \<Rightarrow> data \<Rightarrow> data option" where
  "example_user_serializer instance d =
     (if fits d ''bio'' 255 \<and> fits d ''role'' 50 then Some d else None)"

text \<open>
  Modelled from the spec: the validation of \<^verbatim>\<open>ReviewSerializer\<close> used in the examples,
  which asks for a text and an integer score from 1 to 10.
\<close>

definition example_review_serializer :: "data \<Rightarrow> (string \<times> int) option" where
  "example_review_serializer d =
     (case d ''text'' of
        None \<Rightarrow> None
      | Some t \<Rightarrow>
          (case d ''score'' of
             None \<Rightarrow> None
           | Some s \<Rightarrow>
               map_option (Pair t)
                 (map_of [(''1'', 1), (''2'', 2), (''3'', 3), (''4'', 4), (''5'', 5), (''6'', 6),
                          (''7'', 7), (''8'', 8), (''9'', 9), (''10'', 10)] s)))"

section \<open>Token exchange: properties\<close>


text \<open>The response of the endpoint once validation has produced both fields.\<close>

lemma token_endpoint_cases:
  assumes "ser d = Some vd" "vd ''username'' = Some n" "vd ''confirmation_code'' = Some c"
  shows "token_endpoint ser for_user db d =
     (if n = ''me'' then Response Empty 400
      else case filter_username db (Some n) of
             [] \<Rightarrow> Response Empty 404
           | [u] \<Rightarrow> if Some c = confirmation_code u then Response (Token (for_user u)) 200
                    else Response Empty 400
           | _ # _ # _ \<Rightarrow> Response Empty 500)"
  using assms
  by (simp add: token_endpoint_def TokenObtainWithConfirmationView_create_def respond_def
      get_object_or_404_def split: list.splits)

lemma wrong_code_no_token:
  assumes "wrong_code ser db d"
  shows "\<not> carries_token (token_endpoint ser for_user db d)"
proof (cases "ser d")
  case None
  then show ?thesis
    by (simp add: token_endpoint_def TokenObtainWithConfirmationView_create_def respond_def)
next
  case (Some vd)
  show ?thesis
  proof (cases "vd ''username''")
    case None
    with Some show ?thesis
      by (simp add: token_endpoint_def TokenObtainWithConfirmationView_create_def respond_def)
  next
    case n: (Some n)
    show ?thesis
    proof (cases "vd ''confirmation_code''")
      case None
      with Some n show ?thesis
        by (simp add: token_endpoint_def TokenObtainWithConfirmationView_create_def respond_def)
    next
      case c: (Some c)
      from assms Some n c
      have "list_all (\<lambda>u. confirmation_code u \<noteq> Some c) (filter_username db (Some n))"
        by (simp add: wrong_code_def)
      then show ?thesis
        using token_endpoint_cases [of ser d vd n c for_user db] Some n c
        by (auto split: list.splits)
    qed
  qed
qed

lemma wrong_codes_no_tokens:
  "list_all (wrong_code ser db) ds \<Longrightarrow> tokens_issued (map (token_endpoint ser for_user db) ds) = 0"
  by (induction ds) (simp_all add: tokens_issued_def wrong_code_no_token)

text \<open>
  Claim C1. For a request that validation accepts: when the username is not the
  reserved \<^verbatim>\<open>me\<close>, a bearer token is issued if and only if exactly one user has the
  username and the submitted code is the code stored for that user; on a match the
  answer is 200 with the token signed for that user, on a mismatch 400 with no
  token, and when no user has the username 404. The reserved username, which the
  claim's precondition excludes, is answered 400 with no token before any lookup.
  For every run of wrong-code attempts (whatever their usernames), no response
  carries a token.
\<close>

theorem token_exchange:
  "(ser d = Some vd \<and> vd ''username'' = Some n \<and> vd ''confirmation_code'' = Some c \<and> n \<noteq> ''me'' \<longrightarrow>
      (carries_token (token_endpoint ser for_user db d) \<longleftrightarrow>
         (\<exists>u. filter_username db (Some n) = [u] \<and> confirmation_code u = Some c)) \<and>
      (\<forall>u. filter_username db (Some n) = [u] \<longrightarrow>
         token_endpoint ser for_user db d =
           (if confirmation_code u = Some c then Response (Token (for_user u)) 200
            else Response Empty 400)) \<and>
      (filter_username db (Some n) = [] \<longrightarrow> token_endpoint ser for_user db d = Response Empty 404)) \<and>
   (ser d = Some vd \<and> vd ''username'' = Some ''me'' \<and> vd ''confirmation_code'' = Some c \<longrightarrow>
      token_endpoint ser for_user db d = Response Empty 400) \<and>
   (list_all (wrong_code ser db) ds \<longrightarrow>
      tokens_issued (map (token_endpoint ser for_user db) ds) = 0)"
proof (intro conjI impI)
  assume a: "ser d = Some vd \<and> vd ''username'' = Some n \<and> vd ''confirmation_code'' = Some c \<and> n \<noteq> ''me''"
  then have eq: "token_endpoint ser for_user db d =
     (case filter_username db (Some n) of
        [] \<Rightarrow> Response Empty 404
      | [u] \<Rightarrow> if Some c = confirmation_code u then Response (Token (for_user u)) 200
               else Response Empty 400
      | _ # _ # _ \<Rightarrow> Response Empty 500)"
    using token_endpoint_cases [of ser d vd n c for_user db] by simp
  show "carries_token (token_endpoint ser for_user db d) \<longleftrightarrow>
         (\<exists>u. filter_username db (Some n) = [u] \<and> confirmation_code u = Some c)"
    unfolding eq by (auto split: list.splits)
  show "\<forall>u. filter_username db (Some n) = [u] \<longrightarrow>
         token_endpoint ser for_user db d =
           (if confirmation_code u = Some c then Response (Token (for_user u)) 200
            else Response Empty 400)"
    unfolding eq by auto
  show "token_endpoint ser for_user db d = Response Empty 404" if "filter_username db (Some n) = []"
    unfolding eq using that by simp
next
  assume "ser d = Some vd \<and> vd ''username'' = Some ''me'' \<and> vd ''confirmation_code'' = Some c"
  then show "token_endpoint ser for_user db d = Response Empty 400"
    using token_endpoint_cases [of ser d vd "''me''" c for_user db] by simp
next
  assume "list_all (wrong_code ser db) ds"
  then show "tokens_issued (map (token_endpoint ser for_user db) ds) = 0"
    by (rule wrong_codes_no_tokens)
qed

text \<open>
  The theorem at the spec's example: bob's mailed code buys a token, a wrong code is
  answered 400, an unknown name 404, the reserved name 400, and two wrong attempts
  issue no token.
\<close>

theorem token_exchange_witness:
  "token_endpoint Some username example_db
      [''username'' \<mapsto> ''bob'', ''confirmation_code'' \<mapsto> ''1234''] = Response (Token ''bob'') 200 \<and>
   token_endpoint Some username example_db
      [''username'' \<mapsto> ''bob'', ''confirmation_code'' \<mapsto> ''0000''] = Response Empty 400 \<and>
   token_endpoint Some username example_db
      [''username'' \<mapsto> ''eve'', ''confirmation_code'' \<mapsto> ''1234''] = Response Empty 404 \<and>
   token_endpoint Some username example_db
      [''username'' \<mapsto> ''me'', ''confirmation_code'' \<mapsto> ''1234''] = Response Empty 400 \<and>
   tokens_issued (map (token_endpoint Some username example_db)
      [[''username'' \<mapsto> ''bob'', ''confirmation_code'' \<mapsto> ''0000''],
       [''username'' \<mapsto> ''bob'', ''confirmation_code'' \<mapsto> ''4321'']]) = 0"
  using
    token_exchange [of Some "[''username'' \<mapsto> ''bob'', ''confirmation_code'' \<mapsto> ''1234'']"
      "[''username'' \<mapsto> ''bob'', ''confirmation_code'' \<mapsto> ''1234'']" "''bob''" "''1234''"
      username example_db
      "[[''username'' \<mapsto> ''bob'', ''confirmation_code'' \<mapsto> ''0000''],
        [''username'' \<mapsto> ''bob'', ''confirmation_code'' \<mapsto> ''4321'']]"]
    token_exchange [of Some "[''username'' \<mapsto> ''bob'', ''confirmation_code'' \<mapsto> ''0000'']"
      "[''username'' \<mapsto> ''bob'', ''confirmation_code'' \<mapsto> ''0000'']" "''bob''" "''0000''"
      username example_db "[]"]
    token_exchange [of Some "[''username'' \<mapsto> ''eve'', ''confirmation_code'' \<mapsto> ''1234'']"
      "[''username'' \<mapsto> ''eve'', ''confirmation_code'' \<mapsto> ''1234'']" "''eve''" "''1234''"
      username example_db "[]"]
    token_exchange [of Some "[''username'' \<mapsto> ''me'', ''confirmation_code'' \<mapsto> ''1234'']"
      "[''username'' \<mapsto> ''me'', ''confirmation_code'' \<mapsto> ''1234'']" "''me''" "''1234''"
      username example_db "[]"]
  by (simp add: filter_username_def example_db_def bob_def wrong_code_def)

section \<open>The reserved username\<close>

text \<open>
  Claim C4. A signup request whose username is \<^verbatim>\<open>me\<close> is answered 400 and leaves the
  database (users and outbox) as it was. A token request is answered 400 without a
  token when validation rejects it and when its validated username is \<^verbatim>\<open>me\<close>; the
  token view never writes (its model returns a response only).
\<close>

theorem reserved_me_rejected:
  "(request_data ''username'' = Some ''me'' \<longrightarrow>
      signup_endpoint ser code db request_data = (Response (Detail InvalidMe) 400, db)) \<and>
   (ser' d = None \<longrightarrow>
      status (token_endpoint ser' for_user db d) = 400 \<and>
      \<not> carries_token (token_endpoint ser' for_user db d)) \<and>
   (ser' d = Some vd \<and> vd ''username'' = Some ''me'' \<and> vd ''confirmation_code'' = Some c \<longrightarrow>
      token_endpoint ser' for_user db d = Response Empty 400)"
  by (simp add: signup_endpoint_def SignupView_post_def finalize_def respond_def
      token_endpoint_def TokenObtainWithConfirmationView_create_def)

theorem reserved_me_rejected_witness:
  "signup_endpoint Some ''5678'' example_db [''username'' \<mapsto> ''me'', ''email'' \<mapsto> ''me@x.com'']
     = (Response (Detail InvalidMe) 400, example_db) \<and>
   token_endpoint Some username example_db
      [''username'' \<mapsto> ''me'', ''confirmation_code'' \<mapsto> ''1234''] = Response Empty 400 \<and>
   status (token_endpoint (\<lambda>d. None) username example_db [''username'' \<mapsto> ''me'']) = 400"
  using
    reserved_me_rejected [of "[''username'' \<mapsto> ''me'', ''email'' \<mapsto> ''me@x.com'']" Some "''5678''"
      example_db Some "[''username'' \<mapsto> ''me'', ''confirmation_code'' \<mapsto> ''1234'']" username
      "[''username'' \<mapsto> ''me'', ''confirmation_code'' \<mapsto> ''1234'']" "''1234''"]
    reserved_me_rejected [of "[''username'' \<mapsto> ''me'', ''email'' \<mapsto> ''me@x.com'']" Some "''5678''"
      example_db "\<lambda>d. None" "[''username'' \<mapsto> ''me'']" username Map.empty "''1234''"]
  by simp

section \<open>Signup: properties\<close>

text \<open>A signup whose username some stored user has: the answer, and the database untouched.\<close>

lemma signup_existing:
  assumes "first (filter_username db (d ''username'')) = Some u"
  shows "signup_endpoint ser code db d =
     (if d ''username'' = Some ''me'' then Response (Detail InvalidMe) 400
      else if Some (email u) \<noteq> d ''email'' then Response (Detail EmailMismatch) 400
      else Response (Detail AlreadyRegistered) 200, db)"
  using assms
  by (simp add: signup_endpoint_def SignupView_post_def finalize_def respond_def Let_def)

text \<open>
  Claim C2. For every signup request whose username belongs to a stored user, the
  database after the request is the database before it (no record is created or
  modified, the stored confirmation code and email stay); the status is 200 when the
  submitted email is the stored one and 400 when it differs. The reserved \<^verbatim>\<open>me\<close>,
  which the validation before this step refuses, is answered 400 in either case.
\<close>

theorem signup_existing_user:
  "first (filter_username db (d ''username'')) = Some u \<longrightarrow>
     snd (signup_endpoint ser code db d) = db \<and>
     status (fst (signup_endpoint ser code db d)) =
       (if d ''username'' = Some ''me'' then 400
        else if d ''email'' = Some (email u) then 200 else 400)"
  by (auto simp: signup_existing)

theorem signup_existing_user_witness:
  "signup_endpoint Some ''5678'' example_db [''username'' \<mapsto> ''bob'', ''email'' \<mapsto> ''bob@x.com'']
     = (Response (Detail AlreadyRegistered) 200, example_db) \<and>
   signup_endpoint Some ''5678'' example_db [''username'' \<mapsto> ''bob'', ''email'' \<mapsto> ''eve@x.com'']
     = (Response (Detail EmailMismatch) 400, example_db)"
  using
    signup_existing_user [of example_db "[''username'' \<mapsto> ''bob'', ''email'' \<mapsto> ''bob@x.com'']" bob
      Some "''5678''"]
    signup_existing_user [of example_db "[''username'' \<mapsto> ''bob'', ''email'' \<mapsto> ''eve@x.com'']" bob
      Some "''5678''"]
  by (simp add: signup_endpoint_def SignupView_post_def finalize_def respond_def Let_def
      filter_username_def first_def example_db_def bob_def)

text \<open>
  Claim C8, as the code has it. A signup whose username belongs to a stored user
  generates no confirmation code: every stored code, the row of that user and the
  outbox are what they were, so whenever a signup changes the database no user had
  the username before.
\<close>

theorem signup_existing_no_new_code:
  "(first (filter_username db (d ''username'')) = Some u \<longrightarrow>
      map confirmation_code (users (snd (signup_endpoint ser code db d))) =
        map confirmation_code (users db) \<and>
      user_by_pk (snd (signup_endpoint ser code db d)) (uid u) = user_by_pk db (uid u) \<and>
      outbox (snd (signup_endpoint ser code db d)) = outbox db) \<and>
   (snd (signup_endpoint ser code db d) \<noteq> db \<longrightarrow>
      first (filter_username db (d ''username'')) = None)"
proof (intro conjI impI)
  assume "first (filter_username db (d ''username'')) = Some u"
  then have "snd (signup_endpoint ser code db d) = db"
    by (simp add: signup_existing)
  then show "map confirmation_code (users (snd (signup_endpoint ser code db d))) =
        map confirmation_code (users db)"
    and "user_by_pk (snd (signup_endpoint ser code db d)) (uid u) = user_by_pk db (uid u)"
    and "outbox (snd (signup_endpoint ser code db d)) = outbox db"
    by simp_all
next
  assume changed: "snd (signup_endpoint ser code db d) \<noteq> db"
  show "first (filter_username db (d ''username'')) = None"
  proof (cases "first (filter_username db (d ''username''))")
    case None
    then show ?thesis .
  next
    case (Some u)
    then have "snd (signup_endpoint ser code db d) = db"
      by (simp add: signup_existing)
    with changed show ?thesis by simp
  qed
qed

theorem signup_existing_no_new_code_witness:
  "user_by_pk (snd (signup_endpoint Some ''5678'' example_db
      [''username'' \<mapsto> ''bob'', ''email'' \<mapsto> ''bob@x.com''])) 1 = Some bob \<and>
   outbox (snd (signup_endpoint Some ''5678'' example_db
      [''username'' \<mapsto> ''bob'', ''email'' \<mapsto> ''bob@x.com''])) = []"
  using
    signup_existing_no_new_code [of example_db "[''username'' \<mapsto> ''bob'', ''email'' \<mapsto> ''bob@x.com'']"
      bob Some "''5678''"]
  by (simp add: filter_username_def first_def example_db_def bob_def user_by_pk_def)

text \<open>
  The claim as stated fails at the spec's example: bob signs up again with his own
  email while the mail collaborator would generate \<^verbatim>\<open>5678\<close>; the stored code is still
  \<^verbatim>\<open>1234\<close> and nothing was mailed.
\<close>

theorem signup_code_not_regenerated_counterexample:
  "first (filter_username example_db (Some ''bob'')) = Some bob \<and>
   email bob = ''bob@x.com'' \<and>
   confirmation_code bob = Some ''1234'' \<and>
   map confirmation_code (users (snd (signup_endpoint Some ''5678'' example_db
      [''username'' \<mapsto> ''bob'', ''email'' \<mapsto> ''bob@x.com'']))) = [Some ''1234''] \<and>
   outbox (snd (signup_endpoint Some ''5678'' example_db
      [''username'' \<mapsto> ''bob'', ''email'' \<mapsto> ''bob@x.com''])) = []"
  by (simp add: signup_endpoint_def SignupView_post_def finalize_def respond_def Let_def
      filter_username_def first_def example_db_def bob_def)

text \<open>
  For comparison, the path that creates a user: the generated code is mailed and
  stored on the new record.
\<close>

lemma signup_new_example:
  "signup_endpoint Some ''5678'' example_db [''username'' \<mapsto> ''eve'', ''email'' \<mapsto> ''eve@x.com'']
   = (Response (Fields [(''username'', ''eve''), (''email'', ''eve@x.com'')]) 200,
      \<lparr>users = [bob, \<lparr>uid = 2, username = ''eve'', email = ''eve@x.com'', first_name = [],
          last_name = [], bio = [], role = ''user'', confirmation_code = Some ''5678''\<rparr>],
       titles = [], reviews = [], outbox = [(''eve@x.com'', ''5678'')]\<rparr>)"
  by (simp add: signup_endpoint_def SignupView_post_def finalize_def respond_def Let_def
      filter_username_def first_def example_db_def bob_def SignUpSerializer_save_def
      user_save_def unique_violation_def next_pk_def send_confirmation_email_def)


section \<open>Reviews: properties\<close>

text \<open>Every outcome of a review submission.\<close>

lemma review_create_cases:
  "review_create_endpoint ser u t db d =
     (case ser d of
        None \<Rightarrow> (Response Errors 400, db)
      | Some vd \<Rightarrow>
          if reviews_of db t u \<noteq> [] then (Response Empty 400, db)
          else (case filter (\<lambda>x. tid x = t) (titles db) of
                  [] \<Rightarrow> (Response Empty 404, db)
                | [x] \<Rightarrow> (Response (ReviewFields (fst vd) (snd vd)) 201,
                          ReviewSerializer_save db vd u x)
                | _ # _ # _ \<Rightarrow> (Response Empty 500, db)))"
  by (simp add: review_create_endpoint_def ReviewViewSet_create_def
      ReviewViewSet_perform_create_def ReviewViewSet_get_title_def get_object_or_404_def
      finalize_def respond_def split: option.splits list.splits)

lemma filter_single_tid:
  assumes "filter (\<lambda>x. tid x = t) ts = [x]"
  shows "tid x = t"
proof -
  have "x \<in> set (filter (\<lambda>x. tid x = t) ts)" using assms by simp
  then show ?thesis by simp
qed

lemma reviews_of_empty_iff:
  "reviews_of db t u = [] \<longleftrightarrow> (t, uid u) \<notin> set (map (\<lambda>r. (title_id r, author_id r)) (reviews db))"
  by (auto simp: reviews_of_def filter_empty_conv)

lemma save_keeps_invariant:
  assumes "one_review_per_pair db" "reviews_of db t u = []" "tid x = t"
  shows "one_review_per_pair (ReviewSerializer_save db vd u x)"
  using assms
  by (simp add: one_review_per_pair_def ReviewSerializer_save_def reviews_of_empty_iff)

lemma review_create_invariant:
  assumes "one_review_per_pair db"
  shows "one_review_per_pair (snd (review_create_endpoint ser u t db d))"
proof -
  have saved: "one_review_per_pair (ReviewSerializer_save db vd u x)"
    if "reviews_of db t u = []" and "filter (\<lambda>x. tid x = t) (titles db) = [x]" for vd x
    using assms that(1) filter_single_tid [OF that(2)] by (rule save_keeps_invariant)
  show ?thesis
  proof (cases "ser d")
    case None
    with assms show ?thesis by (simp add: review_create_cases)
  next
    case (Some vd)
    show ?thesis
    proof (cases "reviews_of db t u = []")
      case False
      with Some assms show ?thesis by (simp add: review_create_cases)
    next
      case True
      show ?thesis
      proof (cases "filter (\<lambda>x. tid x = t) (titles db)")
        case Nil
        with Some True assms show ?thesis by (simp add: review_create_cases)
      next
        case (Cons x xs)
        show ?thesis
        proof (cases xs)
          case Nil
          with Cons have one: "filter (\<lambda>x. tid x = t) (titles db) = [x]" by simp
          from saved [OF True one] Some True one show ?thesis
            by (simp add: review_create_cases)
        next
          case (Cons y ys)
          with Some True \<open>filter (\<lambda>x. tid x = t) (titles db) = x # xs\<close> assms show ?thesis
            by (simp add: review_create_cases)
        qed
      qed
    qed
  qed
qed

lemma review_create_duplicate:
  assumes "reviews_of db t u \<noteq> []"
  shows "status (fst (review_create_endpoint ser u t db d)) = 400 \<and>
         snd (review_create_endpoint ser u t db d) = db"
  using assms by (simp add: review_create_cases split: option.splits)

lemma review_create_first:
  assumes "reviews_of db t u = []" "ser d = Some vd" "filter (\<lambda>x. tid x = t) (titles db) = [x]"
  shows "review_create_endpoint ser u t db d =
     (Response (ReviewFields (fst vd) (snd vd)) 201,
      db\<lparr>reviews := reviews db @
        [\<lparr>rid = next_pk (map rid (reviews db)), title_id = t, author_id = uid u,
          review_text = fst vd, score = snd vd\<rparr>]\<rparr>)"
  using assms filter_single_tid [OF assms(3)]
  by (simp add: review_create_cases ReviewSerializer_save_def)


text \<open>Submissions by users who differ pairwise all succeed.\<close>

lemma submit_reviews_all:
  assumes "distinct (map (\<lambda>p. uid (fst p)) uds)"
    and "list_all (\<lambda>p. reviews_of db t (fst p) = [] \<and> ser (snd p) \<noteq> None) uds"
    and "filter (\<lambda>x. tid x = t) (titles db) = [x]"
  shows "fst (submit_reviews ser t db uds) = replicate (length uds) 201 \<and>
         map author_id (reviews (snd (submit_reviews ser t db uds))) =
           map author_id (reviews db) @ map (\<lambda>p. uid (fst p)) uds"
  using assms
proof (induction uds arbitrary: db)
  case Nil
  then show ?case by simp
next
  case (Cons p uds)
  obtain u d where p: "p = (u, d)" by (cases p)
  from Cons.prems p obtain vd where vd: "ser d = Some vd" and none: "reviews_of db t u = []"
    by auto
  define db' where "db' = db\<lparr>reviews := reviews db @
        [\<lparr>rid = next_pk (map rid (reviews db)), title_id = t, author_id = uid u,
          review_text = fst vd, score = snd vd\<rparr>]\<rparr>"
  have step: "review_create_endpoint ser u t db d = (Response (ReviewFields (fst vd) (snd vd)) 201, db')"
    unfolding db'_def using none vd Cons.prems(3) by (rule review_create_first)
  have d1: "distinct (map (\<lambda>p. uid (fst p)) uds)" using Cons.prems(1) by simp
  have d2: "list_all (\<lambda>p. reviews_of db' t (fst p) = [] \<and> ser (snd p) \<noteq> None) uds"
    using Cons.prems(1,2) p
    by (auto simp: list_all_iff reviews_of_def db'_def filter_empty_conv)
  have d3: "filter (\<lambda>x. tid x = t) (titles db') = [x]"
    using Cons.prems(3) by (simp add: db'_def)
  obtain sts db'' where r: "submit_reviews ser t db' uds = (sts, db'')"
    by (cases "submit_reviews ser t db' uds")
  have whole: "submit_reviews ser t db ((u, d) # uds) = (201 # sts, db'')"
    by (simp add: step r)
  have authors: "map author_id (reviews db') = map author_id (reviews db) @ [uid u]"
    by (simp add: db'_def)
  from Cons.IH [OF d1 d2 d3] r have "sts = replicate (length uds) 201"
    and "map author_id (reviews db'') = map author_id (reviews db') @ map (\<lambda>p. uid (fst p)) uds"
    by simp_all
  then show ?case
    unfolding p whole by (simp add: authors)
qed


lemma submit_reviews_invariant:
  "one_review_per_pair db \<Longrightarrow> one_review_per_pair (snd (submit_reviews ser t db uds))"
proof (induction uds arbitrary: db)
  case Nil
  then show ?case by simp
next
  case (Cons p uds)
  obtain u d where p: "p = (u, d)" by (cases p)
  obtain resp db' where step: "review_create_endpoint ser u t db d = (resp, db')"
    by (cases "review_create_endpoint ser u t db d")
  obtain sts db'' where r: "submit_reviews ser t db' uds = (sts, db'')"
    by (cases "submit_reviews ser t db' uds")
  from review_create_invariant [OF Cons.prems, of ser u t d] step
  have "one_review_per_pair db'" by simp
  from Cons.IH [OF this] r have "one_review_per_pair db''" by simp
  then show ?case
    unfolding p by (simp add: step r)
qed

text \<open>
  Claim C3. Creating a review keeps the invariant that no two reviews share title and
  author. A user who already has a review for the title is answered 400 and nothing
  is stored. A user without one, submitting data the serializer accepts for a title
  that exists, is answered 201 and the review is stored. Users who differ pairwise,
  none with a review for the title, are all answered 201, and the invariant holds
  after the last of them.
\<close>

theorem one_review_per_title_and_author:
  "(one_review_per_pair db \<longrightarrow>
      one_review_per_pair (snd (review_create_endpoint ser u t db d))) \<and>
   (reviews_of db t u \<noteq> [] \<longrightarrow>
      status (fst (review_create_endpoint ser u t db d)) = 400 \<and>
      snd (review_create_endpoint ser u t db d) = db) \<and>
   (reviews_of db t u = [] \<and> ser d = Some vd \<and> filter (\<lambda>x. tid x = t) (titles db) = [x] \<longrightarrow>
      review_create_endpoint ser u t db d =
        (Response (ReviewFields (fst vd) (snd vd)) 201,
         db\<lparr>reviews := reviews db @
           [\<lparr>rid = next_pk (map rid (reviews db)), title_id = t, author_id = uid u,
             review_text = fst vd, score = snd vd\<rparr>]\<rparr>)) \<and>
   (one_review_per_pair db \<and> distinct (map (\<lambda>p. uid (fst p)) uds) \<and>
    list_all (\<lambda>p. reviews_of db t (fst p) = [] \<and> ser (snd p) \<noteq> None) uds \<and>
    filter (\<lambda>x. tid x = t) (titles db) = [x] \<longrightarrow>
      fst (submit_reviews ser t db uds) = replicate (length uds) 201 \<and>
      map author_id (reviews (snd (submit_reviews ser t db uds))) =
        map author_id (reviews db) @ map (\<lambda>p. uid (fst p)) uds \<and>
      one_review_per_pair (snd (submit_reviews ser t db uds)))"
proof (intro conjI impI)
  assume "one_review_per_pair db"
  then show "one_review_per_pair (snd (review_create_endpoint ser u t db d))"
    by (rule review_create_invariant)
next
  assume dup: "reviews_of db t u \<noteq> []"
  from review_create_duplicate [OF dup]
  show "status (fst (review_create_endpoint ser u t db d)) = 400"
    and "snd (review_create_endpoint ser u t db d) = db"
    by simp_all
next
  assume "reviews_of db t u = [] \<and> ser d = Some vd \<and> filter (\<lambda>x. tid x = t) (titles db) = [x]"
  then show "review_create_endpoint ser u t db d =
        (Response (ReviewFields (fst vd) (snd vd)) 201,
         db\<lparr>reviews := reviews db @
           [\<lparr>rid = next_pk (map rid (reviews db)), title_id = t, author_id = uid u,
             review_text = fst vd, score = snd vd\<rparr>]\<rparr>)"
    by (simp add: review_create_first)
next
  assume a: "one_review_per_pair db \<and> distinct (map (\<lambda>p. uid (fst p)) uds) \<and>
    list_all (\<lambda>p. reviews_of db t (fst p) = [] \<and> ser (snd p) \<noteq> None) uds \<and>
    filter (\<lambda>x. tid x = t) (titles db) = [x]"
  then have all: "fst (submit_reviews ser t db uds) = replicate (length uds) 201 \<and>
         map author_id (reviews (snd (submit_reviews ser t db uds))) =
           map author_id (reviews db) @ map (\<lambda>p. uid (fst p)) uds"
    by (intro submit_reviews_all) simp_all
  from all show "fst (submit_reviews ser t db uds) = replicate (length uds) 201" by simp
  from all show "map author_id (reviews (snd (submit_reviews ser t db uds))) =
        map author_id (reviews db) @ map (\<lambda>p. uid (fst p)) uds" by simp
  from a show "one_review_per_pair (snd (submit_reviews ser t db uds))"
    by (simp add: submit_reviews_invariant)
qed

text \<open>
  The theorem on the example catalogue: bob's first review of the film is stored, his
  second is refused, and bob and eve both succeed.
\<close>

theorem one_review_per_title_and_author_witness:
  "review_create_endpoint example_review_serializer bob 1 catalogue_db
       [''text'' \<mapsto> ''good'', ''score'' \<mapsto> ''8''] =
     (Response (ReviewFields ''good'' 8) 201,
      catalogue_db\<lparr>reviews := [\<lparr>rid = 1, title_id = 1, author_id = 1, review_text = ''good'',
                                 score = 8\<rparr>]\<rparr>) \<and>
   review_create_endpoint example_review_serializer bob 1
       (catalogue_db\<lparr>reviews := [\<lparr>rid = 1, title_id = 1, author_id = 1, review_text = ''good'',
                                 score = 8\<rparr>]\<rparr>)
       [''text'' \<mapsto> ''better'', ''score'' \<mapsto> ''9''] =
     (Response Empty 400,
      catalogue_db\<lparr>reviews := [\<lparr>rid = 1, title_id = 1, author_id = 1, review_text = ''good'',
                                 score = 8\<rparr>]\<rparr>) \<and>
   fst (submit_reviews example_review_serializer 1 catalogue_db
       [(bob, [''text'' \<mapsto> ''good'', ''score'' \<mapsto> ''8'']),
        (eve, [''text'' \<mapsto> ''dull'', ''score'' \<mapsto> ''5''])]) = [201, 201]"
  using
    one_review_per_title_and_author [of catalogue_db example_review_serializer bob 1
      "[''text'' \<mapsto> ''good'', ''score'' \<mapsto> ''8'']" "(''good'', 8)" film
      "[(bob, [''text'' \<mapsto> ''good'', ''score'' \<mapsto> ''8'']),
        (eve, [''text'' \<mapsto> ''dull'', ''score'' \<mapsto> ''5''])]"]
    one_review_per_title_and_author [of
      "catalogue_db\<lparr>reviews := [\<lparr>rid = 1, title_id = 1, author_id = 1, review_text = ''good'',
                                 score = 8\<rparr>]\<rparr>" example_review_serializer bob 1
      "[''text'' \<mapsto> ''better'', ''score'' \<mapsto> ''9'']" "(''better'', 9)" film "[]"]
  by (simp add: catalogue_db_def bob_def eve_def film_def example_review_serializer_def
      one_review_per_pair_def reviews_of_def next_pk_def review_create_cases
      prod_eq_iff)

section \<open>Double precision: properties\<close>

text \<open>Powers of two, bit lengths and the scaled fraction.\<close>

lemma pow2_powr: "pow2 e = 2 powr real_of_int e"
  unfolding pow2_def using powr_real_of_int [of 2 e] by (simp add: inverse_eq_divide)

lemma pow2_pos: "0 < pow2 e"
  by (simp add: pow2_powr)

lemma pow2_add: "pow2 (a + b) = pow2 a * pow2 b"
  by (simp add: pow2_powr powr_add)






lemma pow2_diff: "pow2 (a - b) = pow2 a / pow2 b"
  using pow2_add [of "a - b" b] pow2_pos [of b] by (simp add: field_simps)

lemma pow2_mono: "a \<le> b \<Longrightarrow> pow2 a \<le> pow2 b"
  by (simp add: pow2_powr)
















section \<open>Titles: properties\<close>








lemma list_sorted:
  "sorted (map (\<lambda>row. - year (fst row)) (TitleViewSet_list flt db))"
  unfolding TitleViewSet_list_def TitleViewSet_get_queryset_def order_by_year_desc_def
  by (intro sorted_filter sorted_sort_key)

text \<open>
  Claim C9. In a list response, of any two adjacent titles the first has a year
  greater than or equal to the second's.
\<close>

theorem titles_by_year_descending:
  "\<forall>i. Suc i < length (TitleViewSet_list flt db) \<longrightarrow>
     year (fst (TitleViewSet_list flt db ! Suc i)) \<le> year (fst (TitleViewSet_list flt db ! i))"
proof (intro allI impI)
  fix i assume i: "Suc i < length (TitleViewSet_list flt db)"
  let ?l = "map (\<lambda>row. - year (fst row)) (TitleViewSet_list flt db)"
  have "?l ! i \<le> ?l ! Suc i"
    using list_sorted [of flt db] i by (intro sorted_nth_mono) simp_all
  with i show "year (fst (TitleViewSet_list flt db ! Suc i)) \<le> year (fst (TitleViewSet_list flt db ! i))"
    by simp
qed

theorem titles_by_year_descending_witness:
  "map (\<lambda>row. year (fst row)) (TitleViewSet_list (\<lambda>t. True) rated_db) = [2005, 1999, 1980]"
  using titles_by_year_descending [of "\<lambda>t. True" rated_db]
  by (simp add: TitleViewSet_list_def TitleViewSet_get_queryset_def order_by_year_desc_def
      annotate_rating_def rated_db_def film_def book_def song_def)

section \<open>Full replacement: properties\<close>

lemma put_not_in_names:
  "PUT \<notin> set TitleViewSet_http_method_names"
  "PUT \<notin> set ReviewViewSet_http_method_names"
  "PUT \<notin> set CommentViewSet_http_method_names"
  "PUT \<in> set ModelViewSet_http_method_names"
  by (simp_all add: TitleViewSet_http_method_names_def ReviewViewSet_http_method_names_def
      CommentViewSet_http_method_names_def ModelViewSet_http_method_names_def)

lemma denied_response:
  "exception_response (permission_denied who) =
     Response Empty (if who = Anonymous then 401 else 403)"
  by (cases who) (simp_all add: permission_denied_def)

text \<open>
  Claim C7, as the code has it. On each of the four resources a PUT request leaves
  the database as it was. It is answered 405 when it passes the permission classes
  of the view set, which the framework checks before it looks at the method; a
  request that fails them is answered 401 (nobody authenticated) or 403.
\<close>

theorem put_method_not_allowed:
  "UsersViewSet_dispatch IsAdmin actions super_update PUT who db =
     (Response Empty (if IsAdmin PUT who then 405 else if who = Anonymous then 401 else 403), db) \<and>
   TitleViewSet_dispatch IsAdminOrReadOnly actions PUT who db =
     (Response Empty (if IsAdminOrReadOnly PUT who then 405
                      else if who = Anonymous then 401 else 403), db) \<and>
   ReviewViewSet_dispatch IsAuthorModerAdminOrReadOnly actions PUT who db =
     (Response Empty (if IsAuthenticatedOrReadOnly PUT who \<and> IsAuthorModerAdminOrReadOnly PUT who
                      then 405 else if who = Anonymous then 401 else 403), db) \<and>
   CommentViewSet_dispatch IsAuthorModerAdminOrReadOnly actions PUT who db =
     (Response Empty (if IsAuthenticatedOrReadOnly PUT who \<and> IsAuthorModerAdminOrReadOnly PUT who
                      then 405 else if who = Anonymous then 401 else 403), db)"
  by (simp add: UsersViewSet_dispatch_def TitleViewSet_dispatch_def ReviewViewSet_dispatch_def
      CommentViewSet_dispatch_def dispatch_def finalize_def respond_def put_not_in_names
      denied_response UsersViewSet_update_def)

text \<open>An authenticated PUT on reviews and on users (with a permission that admits bob).\<close>

theorem put_method_not_allowed_witness:
  "ReviewViewSet_dispatch IsAuthenticatedOrReadOnly Map.empty PUT (Authenticated bob) example_db =
     (Response Empty 405, example_db) \<and>
   UsersViewSet_dispatch IsAuthenticated Map.empty (\<lambda>db. (Inr (Response Empty 200), empty_db))
     PUT (Authenticated bob) example_db = (Response Empty 405, example_db)"
  using
    put_method_not_allowed [of IsAuthenticated Map.empty "\<lambda>db. (Inr (Response Empty 200), empty_db)"
      "Authenticated bob" example_db IsAuthenticated IsAuthenticatedOrReadOnly]
  by (simp add: IsAuthenticated_def IsAuthenticatedOrReadOnly_def)

text \<open>
  The claim as stated fails for a request without credentials: the review view set
  names \<^verbatim>\<open>IsAuthenticatedOrReadOnly\<close>, and the PUT is refused before the method counts.
\<close>

theorem put_anonymous_counterexample:
  "status (fst (ReviewViewSet_dispatch IsAuthenticatedOrReadOnly Map.empty PUT Anonymous empty_db))
     \<noteq> 405"
  by (simp add: ReviewViewSet_dispatch_def dispatch_def finalize_def respond_def
      IsAuthenticatedOrReadOnly_def SAFE_METHODS_def permission_denied_def)

section \<open>The "me" endpoint: properties\<close>

lemma find_map_replace:
  assumes "list_ex (\<lambda>x. uid x = uid v) xs"
  shows "find (\<lambda>x. uid x = uid v) (map (\<lambda>x. if uid x = uid v then v else x) xs) = Some v"
  using assms by (induction xs) auto

lemma find_append_new:
  assumes "\<not> list_ex (\<lambda>x. uid x = uid v) xs"
  shows "find (\<lambda>x. uid x = uid v) (xs @ [v]) = Some v"
  using assms by (induction xs) auto

lemma user_save_stores:
  assumes "\<not> unique_violation db v"
  shows "\<exists>db'. user_save db v = Inr db' \<and> user_by_pk db' (uid v) = Some v"
  using assms
  by (simp add: user_save_def user_by_pk_def find_map_replace find_append_new)

lemma me_endpoint_handler:
  assumes "m = GET \<or> m = PATCH"
  shows "me_endpoint ser m (Authenticated u) d db = finalize (UsersViewSet_get_update_me ser m u d db)"
  using assms
  by (auto simp: me_endpoint_def dispatch_def IsAuthenticated_def ModelViewSet_http_method_names_def)

lemma me_valid:
  assumes "m = GET \<or> m = PATCH" and "ser u d = Some vd"
    and "\<not> unique_violation db (ModelSerializer_update u (if m = PATCH then vd(''role'' := None) else vd))"
  shows "fst (me_endpoint ser m (Authenticated u) d db) =
           Response (UserSerializer_data
             (ModelSerializer_update u (if m = PATCH then vd(''role'' := None) else vd))) 200 \<and>
         user_by_pk (snd (me_endpoint ser m (Authenticated u) d db)) (uid u) =
           Some (ModelSerializer_update u (if m = PATCH then vd(''role'' := None) else vd))"
proof -
  let ?v = "ModelSerializer_update u (if m = PATCH then vd(''role'' := None) else vd)"
  have uidv: "uid ?v = uid u" by (simp add: ModelSerializer_update_def)
  from user_save_stores [OF assms(3)] obtain db'
    where s: "user_save db ?v = Inr db'" and g: "user_by_pk db' (uid ?v) = Some ?v" by blast
  have "UsersViewSet_get_update_me ser m u d db = (Inr (Response (UserSerializer_data ?v) 200), db')"
    using assms(2) s by (simp add: UsersViewSet_get_update_me_def Let_def)
  then show ?thesis
    using g uidv by (simp add: me_endpoint_handler [OF assms(1)] finalize_def respond_def)
qed

lemma me_unchanged_or_saved:
  assumes "m = GET \<or> m = PATCH"
  shows "snd (me_endpoint ser m (Authenticated u) d db) = db \<or>
         (\<exists>vd. ser u d = Some vd \<and>
            user_save db (ModelSerializer_update u (if m = PATCH then vd(''role'' := None) else vd))
              = Inr (snd (me_endpoint ser m (Authenticated u) d db)))"
  by (auto simp: me_endpoint_handler [OF assms] finalize_def UsersViewSet_get_update_me_def Let_def
      split: option.splits sum.splits)

lemma user_save_by_pk:
  assumes "user_save db v = Inr db'"
  shows "user_by_pk db' (uid v) = Some v"
proof -
  from assms have "\<not> unique_violation db v"
    by (auto simp: user_save_def split: if_splits)
  from user_save_stores [OF this] assms show ?thesis by auto
qed

lemma role_without_key: "role (ModelSerializer_update u (vd(''role'' := None))) = role u"
  by (simp add: ModelSerializer_update_def assigned_def)

lemma getattr_assigned:
  assumes "vd k = Some v" and "getattr u k \<noteq> None"
  shows "getattr (ModelSerializer_update u vd) k = Some v"
  using assms
  by (auto simp: getattr_def ModelSerializer_update_def assigned_def split: if_splits)

text \<open>
  Claim C6, as the code has it. The caller is the stored user \<open>u\<close>. After a PATCH to
  the endpoint the caller's stored role is the role before it, whatever the body
  holds. The handler validates the whole body, the role included, before it drops
  the role: a body the serializer refuses is answered 400 and nothing is stored.
  When the serializer accepts the body, and the new username and email are held by
  no other row, the answer is 200, the stored record is the caller's with every
  validated field but \<^verbatim>\<open>role\<close> assigned, and each such field has its submitted value.
\<close>

theorem patch_me_keeps_role:
  "(user_by_pk db (uid u) = Some u \<longrightarrow>
     (\<exists>u'. user_by_pk (snd (me_endpoint ser PATCH (Authenticated u) d db)) (uid u) = Some u' \<and>
           role u' = role u) \<and>
     (ser u d = Some vd \<and>
      \<not> unique_violation db (ModelSerializer_update u (vd(''role'' := None))) \<longrightarrow>
        fst (me_endpoint ser PATCH (Authenticated u) d db) =
          Response (UserSerializer_data (ModelSerializer_update u (vd(''role'' := None)))) 200 \<and>
        user_by_pk (snd (me_endpoint ser PATCH (Authenticated u) d db)) (uid u) =
          Some (ModelSerializer_update u (vd(''role'' := None))) \<and>
        (\<forall>k v. k \<noteq> ''role'' \<and> vd k = Some v \<and> getattr u k \<noteq> None \<longrightarrow>
           getattr (ModelSerializer_update u (vd(''role'' := None))) k = Some v))) \<and>
   (ser u d = None \<longrightarrow>
      me_endpoint ser PATCH (Authenticated u) d db = (Response Errors 400, db))"
proof (intro impI conjI)
  assume stored: "user_by_pk db (uid u) = Some u"
  let ?db' = "snd (me_endpoint ser PATCH (Authenticated u) d db)"
  from me_unchanged_or_saved [of PATCH ser u d db]
  consider "?db' = db"
    | vd' where "user_save db (ModelSerializer_update u (vd'(''role'' := None))) = Inr ?db'"
    by auto
  then show "\<exists>u'. user_by_pk ?db' (uid u) = Some u' \<and> role u' = role u"
  proof cases
    case 1
    with stored show ?thesis by simp
  next
    case 2
    from user_save_by_pk [OF 2]
    have "user_by_pk ?db' (uid u) = Some (ModelSerializer_update u (vd'(''role'' := None)))"
      by (simp add: ModelSerializer_update_def)
    then show ?thesis by (simp add: role_without_key)
  qed
next
  assume "ser u d = Some vd \<and>
      \<not> unique_violation db (ModelSerializer_update u (vd(''role'' := None)))"
  then have v: "ser u d = Some vd"
    and nv: "\<not> unique_violation db (ModelSerializer_update u (if PATCH = PATCH then vd(''role'' := None) else vd))"
    by simp_all
  from me_valid [of PATCH ser u d vd db, OF _ v nv]
  show "fst (me_endpoint ser PATCH (Authenticated u) d db) =
          Response (UserSerializer_data (ModelSerializer_update u (vd(''role'' := None)))) 200"
    and "user_by_pk (snd (me_endpoint ser PATCH (Authenticated u) d db)) (uid u) =
          Some (ModelSerializer_update u (vd(''role'' := None)))"
    by simp_all
  show "\<forall>k v. k \<noteq> ''role'' \<and> vd k = Some v \<and> getattr u k \<noteq> None \<longrightarrow>
           getattr (ModelSerializer_update u (vd(''role'' := None))) k = Some v"
    by (auto intro!: getattr_assigned)
next
  assume "ser u d = None"
  then show "me_endpoint ser PATCH (Authenticated u) d db = (Response Errors 400, db)"
    by (simp add: me_endpoint_handler finalize_def respond_def UsersViewSet_get_update_me_def)
qed

text \<open>
  bob sends a new bio and the role \<^verbatim>\<open>admin\<close>: the bio is stored, the role is not. A body
  the serializer refuses is answered 400.
\<close>

theorem patch_me_keeps_role_witness:
  "me_endpoint example_user_serializer PATCH (Authenticated bob)
     [''bio'' \<mapsto> ''hi'', ''role'' \<mapsto> ''admin''] example_db =
     (Response (UserSerializer_data (bob\<lparr>bio := ''hi''\<rparr>)) 200,
      example_db\<lparr>users := [bob\<lparr>bio := ''hi''\<rparr>]\<rparr>) \<and>
   role (bob\<lparr>bio := ''hi''\<rparr>) = ''user'' \<and>
   me_endpoint (\<lambda>u d. None) PATCH (Authenticated bob) [''role'' \<mapsto> ''admin''] example_db =
     (Response Errors 400, example_db)"
  using
    patch_me_keeps_role [of example_db bob example_user_serializer
      "[''bio'' \<mapsto> ''hi'', ''role'' \<mapsto> ''admin'']" "[''bio'' \<mapsto> ''hi'', ''role'' \<mapsto> ''admin'']"]
    patch_me_keeps_role [of example_db bob "\<lambda>u d. None" "[''role'' \<mapsto> ''admin'']" Map.empty]
  by (simp add: me_endpoint_handler finalize_def respond_def UsersViewSet_get_update_me_def
      ModelSerializer_update_def assigned_def user_save_def unique_violation_def Let_def
      example_db_def bob_def user_by_pk_def example_user_serializer_def fits_def)

text \<open>
  The claim as stated fails for a body whose role does not fit the column: the role
  is not silently dropped, the request is refused with 400.
\<close>

theorem patch_me_role_rejected_counterexample:
  "user_by_pk example_db (uid bob) = Some bob \<and>
   me_endpoint example_user_serializer PATCH (Authenticated bob)
     [''bio'' \<mapsto> ''hi'', ''role'' \<mapsto> replicate 51 (CHR ''a'')] example_db =
     (Response Errors 400, example_db)"
  by (simp add: me_endpoint_handler finalize_def respond_def UsersViewSet_get_update_me_def
      example_db_def bob_def user_by_pk_def example_user_serializer_def fits_def)

text \<open>
  Claim C10. The handler does not look at the method before it validates and saves.
  A GET whose body the serializer rejects is answered 400; one it accepts (the new
  username and email held by no other row) is answered 200 and every validated
  field, \<^verbatim>\<open>role\<close> included, is stored on the caller's record. The same body sent by
  PATCH is stored without the role.
\<close>

theorem get_me_saves_body:
  "(ser u d = None \<longrightarrow> me_endpoint ser GET (Authenticated u) d db = (Response Errors 400, db)) \<and>
   (ser u d = Some vd \<and> \<not> unique_violation db (ModelSerializer_update u vd) \<longrightarrow>
      fst (me_endpoint ser GET (Authenticated u) d db) =
        Response (UserSerializer_data (ModelSerializer_update u vd)) 200 \<and>
      user_by_pk (snd (me_endpoint ser GET (Authenticated u) d db)) (uid u) =
        Some (ModelSerializer_update u vd) \<and>
      (\<forall>k v. vd k = Some v \<and> getattr u k \<noteq> None \<longrightarrow>
         getattr (ModelSerializer_update u vd) k = Some v) \<and>
      (\<forall>r. vd ''role'' = Some r \<longrightarrow> role (ModelSerializer_update u vd) = r)) \<and>
   (ser u d = Some vd \<and>
    \<not> unique_violation db (ModelSerializer_update u (vd(''role'' := None))) \<longrightarrow>
      user_by_pk (snd (me_endpoint ser PATCH (Authenticated u) d db)) (uid u) =
        Some (ModelSerializer_update u (vd(''role'' := None))) \<and>
      role (ModelSerializer_update u (vd(''role'' := None))) = role u)"
proof (intro conjI impI)
  assume "ser u d = None"
  then show "me_endpoint ser GET (Authenticated u) d db = (Response Errors 400, db)"
    by (simp add: me_endpoint_handler finalize_def respond_def UsersViewSet_get_update_me_def)
next
  assume "ser u d = Some vd \<and> \<not> unique_violation db (ModelSerializer_update u vd)"
  then have v: "ser u d = Some vd"
    and nv: "\<not> unique_violation db (ModelSerializer_update u (if GET = PATCH then vd(''role'' := None) else vd))"
    by simp_all
  from me_valid [of GET ser u d vd db, OF _ v nv]
  show "fst (me_endpoint ser GET (Authenticated u) d db) =
        Response (UserSerializer_data (ModelSerializer_update u vd)) 200"
    and "user_by_pk (snd (me_endpoint ser GET (Authenticated u) d db)) (uid u) =
        Some (ModelSerializer_update u vd)"
    by simp_all
  show "\<forall>k v. vd k = Some v \<and> getattr u k \<noteq> None \<longrightarrow>
         getattr (ModelSerializer_update u vd) k = Some v"
    by (auto intro!: getattr_assigned)
  show "\<forall>r. vd ''role'' = Some r \<longrightarrow> role (ModelSerializer_update u vd) = r"
    by (simp add: ModelSerializer_update_def assigned_def)
next
  assume "ser u d = Some vd \<and>
    \<not> unique_violation db (ModelSerializer_update u (vd(''role'' := None)))"
  then have v: "ser u d = Some vd"
    and nv: "\<not> unique_violation db (ModelSerializer_update u (if PATCH = PATCH then vd(''role'' := None) else vd))"
    by simp_all
  from me_valid [of PATCH ser u d vd db, OF _ v nv]
  show "user_by_pk (snd (me_endpoint ser PATCH (Authenticated u) d db)) (uid u) =
        Some (ModelSerializer_update u (vd(''role'' := None)))"
    by simp
  show "role (ModelSerializer_update u (vd(''role'' := None))) = role u"
    by (rule role_without_key)
qed


text \<open>bob sends the same body by GET: the stored role is now \<^verbatim>\<open>admin\<close>.\<close>

theorem get_me_saves_body_witness:
  "me_endpoint (\<lambda>u. Some) GET (Authenticated bob) [''bio'' \<mapsto> ''hi'', ''role'' \<mapsto> ''admin'']
     example_db =
     (Response (UserSerializer_data (bob\<lparr>bio := ''hi'', role := ''admin''\<rparr>)) 200,
      example_db\<lparr>users := [bob\<lparr>bio := ''hi'', role := ''admin''\<rparr>]\<rparr>) \<and>
   me_endpoint (\<lambda>u d. None) GET (Authenticated bob) [''role'' \<mapsto> ''admin''] example_db =
     (Response Errors 400, example_db)"
  using
    get_me_saves_body [of "\<lambda>u. Some" bob "[''bio'' \<mapsto> ''hi'', ''role'' \<mapsto> ''admin'']" example_db
      "[''bio'' \<mapsto> ''hi'', ''role'' \<mapsto> ''admin'']"]
    get_me_saves_body [of "\<lambda>u d. None" bob "[''role'' \<mapsto> ''admin'']" example_db Map.empty]
  by (simp add: me_endpoint_handler finalize_def respond_def UsersViewSet_get_update_me_def
      ModelSerializer_update_def assigned_def user_save_def unique_violation_def Let_def
      example_db_def bob_def user_by_pk_def)

end
